theory Spec2Isabelle
  imports Complex_Main "HOL-Library.AList" "HOL-Library.Multiset"
begin

section \<open>Tide Tracker: the normalisation logic of \<open>src/index.ts\<close>\<close>

text \<open>
  The service is a single TypeScript module. Its logic is the two parsers
  \<open>parseTides\<close> and \<open>parseWind\<close>, the date bucketing and the next-tide selection
  that the handlers do inline, the wind classification, the error policy of the
  handlers around \<open>fetchJSON\<close>, and the input schema of the \<open>search\<close> entrypoint.

  Conventions of the embedding:
  \<^item> a JavaScript string is a \<open>string\<close>; each \<open>char\<close> stands for one UTF-16 code unit
    below 256;
  \<^item> a JavaScript number is a \<open>jsnumber\<close>: the special values and, for a finite
    value, the rational it denotes (every finite binary64 value is a rational); the
    rounding of a parsed decimal to the nearest binary64 value is the parameter
    \<open>rnd\<close> of the parsers, so every theorem holds for every rounding;
  \<^item> \<open>null\<close> and \<open>undefined\<close> results are \<open>None\<close>;
  \<^item> a thrown exception or rejected promise is \<open>Inl\<close> of an \<open>exn\<close>;
  \<^item> the outcome of each upstream HTTP call and each reading of the clock is an
    argument of the handler that makes it.
\<close>

subsection \<open>JavaScript numbers\<close>

datatype jsnumber = NaN | PosInfinity | NegInfinity | NegZero | Finite rat

fun mathValue :: "jsnumber \<Rightarrow> rat" where
  "mathValue (Finite q) = q"
| "mathValue _ = 0"

text \<open>The relational operator \<open>x > y\<close> on numbers: false as soon as one side is \<open>NaN\<close>.\<close>

fun jsGreater :: "jsnumber \<Rightarrow> jsnumber \<Rightarrow> bool" where
  "jsGreater NaN y = False"
| "jsGreater x NaN = False"
| "jsGreater x PosInfinity = False"
| "jsGreater PosInfinity y = True"
| "jsGreater NegInfinity y = False"
| "jsGreater x NegInfinity = True"
| "jsGreater x y = (mathValue y < mathValue x)"

fun jsNegate :: "jsnumber \<Rightarrow> jsnumber" where
  "jsNegate NaN = NaN"
| "jsNegate PosInfinity = NegInfinity"
| "jsNegate NegInfinity = PosInfinity"
| "jsNegate NegZero = Finite 0"
| "jsNegate (Finite q) = (if q = 0 then NegZero else Finite (- q))"

subsection \<open>Strings: the built-ins the module calls\<close>

definition isWhiteSpace :: "char \<Rightarrow> bool" where
  "isWhiteSpace c = ((of_char c :: nat) \<in> {9, 10, 11, 12, 13, 32, 160})"

definition isDigit :: "char \<Rightarrow> bool" where
  "isDigit c = (48 \<le> (of_char c :: nat) \<and> (of_char c :: nat) \<le> 57)"

definition digitValue :: "char \<Rightarrow> nat" where
  "digitValue c = (of_char c :: nat) - 48"

definition decimalValue :: "string \<Rightarrow> nat" where
  "decimalValue ds = foldl (\<lambda>acc c. 10 * acc + digitValue c) 0 ds"

definition isHexDigit :: "char \<Rightarrow> bool" where
  "isHexDigit c = (isDigit c \<or> (65 \<le> (of_char c :: nat) \<and> (of_char c :: nat) \<le> 70)
                              \<or> (97 \<le> (of_char c :: nat) \<and> (of_char c :: nat) \<le> 102))"

definition hexDigitValue :: "char \<Rightarrow> nat" where
  "hexDigitValue c = (if isDigit c then (of_char c :: nat) - 48
                      else if (of_char c :: nat) \<le> 70 then (of_char c :: nat) - 55
                      else (of_char c :: nat) - 87)"

definition hexValue :: "string \<Rightarrow> nat" where
  "hexValue ds = foldl (\<lambda>acc c. 16 * acc + hexDigitValue c) 0 ds"

text \<open>
  \<open>s.split(sep)\<close> for a one-character separator: the pieces between the
  separators; the result is never empty.
\<close>

fun jsSplit :: "char \<Rightarrow> string \<Rightarrow> string list" where
  "jsSplit sep [] = [[]]"
| "jsSplit sep (c # cs) =
     (if c = sep then [] # jsSplit sep cs
      else (case jsSplit sep cs of
              [] \<Rightarrow> [[c]]
            | w # ws \<Rightarrow> (c # w) # ws))"

text \<open>
  \<open>s.replace(a, b)\<close> with a one-character string pattern: only the first
  occurrence is replaced.
\<close>

fun jsReplace :: "char \<Rightarrow> char \<Rightarrow> string \<Rightarrow> string" where
  "jsReplace a b [] = []"
| "jsReplace a b (c # cs) = (if c = a then b # cs else c # jsReplace a b cs)"

text \<open>
  The exponent part of a decimal literal: \<open>e\<close> or \<open>E\<close>, an optional sign, and at
  least one digit; anything else is not part of the literal and counts as exponent 0.
\<close>

definition exponentPart :: "string \<Rightarrow> int" where
  "exponentPart r =
     (case r of
        [] \<Rightarrow> 0
      | c # r1 \<Rightarrow>
          if c = CHR ''e'' \<or> c = CHR ''E'' then
            (case r1 of
               [] \<Rightarrow> 0
             | s # r2 \<Rightarrow>
                 if s = CHR ''-'' then
                   - int (decimalValue (takeWhile isDigit r2))
                 else if s = CHR ''+'' then int (decimalValue (takeWhile isDigit r2))
                 else int (decimalValue (takeWhile isDigit r1)))
          else 0)"

text \<open>
  \<open>parseFloat\<close>: leading white space is dropped, then the longest prefix that is a
  decimal literal (sign, \<open>Infinity\<close>, or digits with an optional fraction and
  exponent) is converted; with no such prefix the result is \<open>NaN\<close>. The literal's
  exact value goes through \<open>rnd\<close>, the rounding to binary64.
\<close>

definition unsignedDecimal :: "(rat \<Rightarrow> jsnumber) \<Rightarrow> string \<Rightarrow> jsnumber" where
  "unsignedDecimal rnd u =
     (let ip = takeWhile isDigit u;
          r1 = dropWhile isDigit u;
          dot = (case r1 of [] \<Rightarrow> False | c # _ \<Rightarrow> c = CHR ''.'');
          fp = (if dot then takeWhile isDigit (tl r1) else []);
          r2 = (if dot then dropWhile isDigit (tl r1) else r1)
      in if take 8 u = ''Infinity'' then PosInfinity
         else if ip = [] \<and> fp = [] then NaN
         else rnd ((of_nat (decimalValue ip) + of_nat (decimalValue fp) / 10 ^ length fp)
                    * 10 powi exponentPart r2))"

definition parseFloat :: "(rat \<Rightarrow> jsnumber) \<Rightarrow> string \<Rightarrow> jsnumber" where
  "parseFloat rnd s =
     (case dropWhile isWhiteSpace s of
        [] \<Rightarrow> NaN
      | c # r \<Rightarrow>
          if c = CHR ''-'' then jsNegate (unsignedDecimal rnd r)
          else if c = CHR ''+'' then unsignedDecimal rnd r
          else unsignedDecimal rnd (c # r))"

text \<open>
  \<open>parseInt\<close> without a radix: white space and sign are dropped, a prefix \<open>0x\<close>
  or \<open>0X\<close> selects radix 16, otherwise radix 10; the leading digits are
  converted, and with no digit the result is \<open>NaN\<close>.
\<close>

definition unsignedInteger :: "(rat \<Rightarrow> jsnumber) \<Rightarrow> string \<Rightarrow> jsnumber" where
  "unsignedInteger rnd u =
     (let hex = (take 2 u = ''0x'' \<or> take 2 u = ''0X'');
          z = (if hex then takeWhile isHexDigit (drop 2 u) else takeWhile isDigit u)
      in if z = [] then NaN
         else rnd (of_nat (if hex then hexValue z else decimalValue z)))"

definition parseInt :: "(rat \<Rightarrow> jsnumber) \<Rightarrow> string \<Rightarrow> jsnumber" where
  "parseInt rnd s =
     (case dropWhile isWhiteSpace s of
        [] \<Rightarrow> NaN
      | c # r \<Rightarrow>
          if c = CHR ''-'' then jsNegate (unsignedInteger rnd r)
          else if c = CHR ''+'' then unsignedInteger rnd r
          else unsignedInteger rnd (c # r))"

text \<open>
  A string is numeric for \<open>parseFloat\<close> when, after leading white space and an
  optional sign, it starts with \<open>Infinity\<close>, with a digit, or with a dot and a digit.
\<close>

definition startsUnsigned :: "string \<Rightarrow> bool" where
  "startsUnsigned u =
     (take 8 u = ''Infinity'' \<or>
      (case u of
         [] \<Rightarrow> False
       | c # r \<Rightarrow>
           isDigit c \<or> (c = CHR ''.'' \<and> (case r of [] \<Rightarrow> False | d # _ \<Rightarrow> isDigit d))))"

definition startsNumeric :: "string \<Rightarrow> bool" where
  "startsNumeric s =
     (case dropWhile isWhiteSpace s of
        [] \<Rightarrow> False
      | c # r \<Rightarrow>
          if c = CHR ''-'' \<or> c = CHR ''+'' then startsUnsigned r else startsUnsigned (c # r))"

subsection \<open>Records of the upstream API and of the normalised output\<close>

text \<open>One element of \<open>predictions\<close>: the fields \<open>t\<close>, \<open>v\<close>, \<open>type\<close>.\<close>

record rawPrediction =
  p_t :: string
  p_v :: string
  p_type :: string

text \<open>One element of the wind series \<open>data\<close>: the fields \<open>t\<close>, \<open>s\<close>, \<open>d\<close>, \<open>dr\<close>, \<open>g\<close>.\<close>

record rawWind =
  w_t :: string
  w_s :: string
  w_d :: string
  w_dr :: string
  w_g :: string

text \<open>The object \<open>parseTides\<close> builds: \<open>time\<close>, \<open>height\<close>, \<open>type\<close>.\<close>

record tidePrediction =
  tide_time :: string
  tide_height :: jsnumber
  tide_type :: string

text \<open>The object \<open>parseWind\<close> builds.\<close>

record windReading =
  wind_time :: string
  wind_speed :: jsnumber
  wind_direction :: jsnumber
  wind_directionLabel :: string
  wind_gust :: jsnumber

subsection \<open>\<open>parseTides\<close> and \<open>parseWind\<close>\<close>

definition parseTides :: "(rat \<Rightarrow> jsnumber) \<Rightarrow> rawPrediction list \<Rightarrow> tidePrediction list" where
  "parseTides rnd predictions =
     map (\<lambda>p. \<lparr>tide_time = p_t p,
               tide_height = parseFloat rnd (p_v p),
               tide_type = (if p_type p = ''H'' then ''high''
                            else if p_type p = ''L'' then ''low'' else ''reading'')\<rparr>)
         predictions"

definition parseWind :: "(rat \<Rightarrow> jsnumber) \<Rightarrow> rawWind list option \<Rightarrow> windReading option" where
  "parseWind rnd data =
     (case data of
        None \<Rightarrow> None
      | Some series \<Rightarrow>
          if length series = 0 then None
          else (let latest = series ! (length series - 1)
                in Some \<lparr>wind_time = w_t latest,
                         wind_speed = parseFloat rnd (w_s latest),
                         wind_direction = parseInt rnd (w_d latest),
                         wind_directionLabel = w_dr latest,
                         wind_gust = parseFloat rnd (w_g latest)\<rparr>))"

subsection \<open>Plain objects used as dictionaries\<close>

text \<open>
  \<open>byDate\<close> is an object literal \<open>{}\<close>, so it inherits from \<open>Object.prototype\<close>:
  reading a key it does not own finds the inherited property when the key is one of
  the names below, and \<open>undefined\<close> otherwise. The own properties are kept in the
  order in which the object enumerates them (the order of the serialised response):
  array-index keys in ascending numeric order first, then the other keys in order of
  creation.
\<close>

definition objectPrototypeKeys :: "string list" where
  "objectPrototypeKeys =
     [''constructor'', ''__defineGetter__'', ''__defineSetter__'', ''hasOwnProperty'',
      ''__lookupGetter__'', ''__lookupSetter__'', ''isPrototypeOf'',
      ''propertyIsEnumerable'', ''toString'', ''valueOf'', ''__proto__'',
      ''toLocaleString'']"

datatype 'v property = Undefined | Own 'v | Inherited

type_synonym 'v jsobject = "(string \<times> 'v) list"

definition getProp :: "'v jsobject \<Rightarrow> string \<Rightarrow> 'v property" where
  "getProp obj k =
     (case map_of obj k of
        Some v \<Rightarrow> Own v
      | None \<Rightarrow> if k \<in> set objectPrototypeKeys then Inherited else Undefined)"

text \<open>Truthiness: \<open>undefined\<close> is falsy; an array and an inherited function or object
  are truthy.\<close>

fun truthy :: "'v property \<Rightarrow> bool" where
  "truthy Undefined = False"
| "truthy (Own v) = True"
| "truthy Inherited = True"

text \<open>An array index is the canonical decimal form of an integer below \<open>2^32 - 1\<close>.\<close>

definition isArrayIndex :: "string \<Rightarrow> bool" where
  "isArrayIndex k =
     (k \<noteq> [] \<and> list_all isDigit k \<and> (hd k \<noteq> CHR ''0'' \<or> k = ''0'')
      \<and> decimalValue k < 4294967295)"

fun insertIndexKey :: "string \<Rightarrow> 'v \<Rightarrow> 'v jsobject \<Rightarrow> 'v jsobject" where
  "insertIndexKey k v [] = [(k, v)]"
| "insertIndexKey k v ((k', v') # rest) =
     (if isArrayIndex k' \<and> decimalValue k' < decimalValue k
      then (k', v') # insertIndexKey k v rest
      else (k, v) # (k', v') # rest)"

text \<open>The assignment \<open>obj[k] = v\<close> to an own or new data property.\<close>

definition setProp :: "'v jsobject \<Rightarrow> string \<Rightarrow> 'v \<Rightarrow> 'v jsobject" where
  "setProp obj k v =
     (if k \<in> fst ` set obj then AList.update k v obj
      else if isArrayIndex k then insertIndexKey k v obj
      else obj @ [(k, v)])"

subsection \<open>Grouping by date (the \<open>forecast\<close> and \<open>report\<close> handlers)\<close>

text \<open>
  What the module can throw: the rejection of \<open>fetch\<close> itself, the
  \<open>Error("API error: <status>")\<close> of \<open>fetchJSON\<close>, the rejection of
  \<open>response.json()\<close> on a body that is not JSON, and the \<open>TypeError\<close> of a call on
  a value that has no such method.
\<close>

datatype exn = NetworkError | ApiError nat | SyntaxError | TypeError

text \<open>\<open>tide.time.split(' ')[0]\<close>; an index past the end reads \<open>undefined\<close>, which as
  a property key is the string \<open>undefined\<close>.\<close>

definition dateKey :: "string \<Rightarrow> string" where
  "dateKey time =
     (case jsSplit CHR '' '' time of
        [] \<Rightarrow> ''undefined''
      | date # _ \<Rightarrow> date)"

abbreviation keyOf :: "tidePrediction \<Rightarrow> string" where
  "keyOf p \<equiv> dateKey (tide_time p)"

text \<open>The part of a prediction's time before the first space.\<close>

abbreviation datePart :: "tidePrediction \<Rightarrow> string" where
  "datePart p \<equiv> takeWhile (\<lambda>c. c \<noteq> CHR '' '') (tide_time p)"

text \<open>
  One iteration of the loop:
  \<^verbatim>\<open>const date = tide.time.split(' ')[0];
  if (!byDate[date]) byDate[date] = [];
  byDate[date].push(tide);\<close>
  Calling \<open>push\<close> on a value that has no such method raises a \<open>TypeError\<close>.
\<close>

definition bucketStep ::
  "tidePrediction list jsobject \<Rightarrow> tidePrediction \<Rightarrow> exn + tidePrediction list jsobject" where
  "bucketStep byDate tide =
     (let date = dateKey (tide_time tide);
          byDate1 = (if \<not> truthy (getProp byDate date) then setProp byDate date [] else byDate)
      in case getProp byDate1 date of
           Own bucket \<Rightarrow> Inr (setProp byDate1 date (bucket @ [tide]))
         | Inherited \<Rightarrow> Inl TypeError
         | Undefined \<Rightarrow> Inl TypeError)"

fun bucketLoop ::
  "tidePrediction list jsobject \<Rightarrow> tidePrediction list \<Rightarrow> exn + tidePrediction list jsobject" where
  "bucketLoop byDate [] = Inr byDate"
| "bucketLoop byDate (tide # rest) =
     (case bucketStep byDate tide of
        Inl e \<Rightarrow> Inl e
      | Inr byDate1 \<Rightarrow> bucketLoop byDate1 rest)"

definition bucketByDate :: "tidePrediction list \<Rightarrow> exn + tidePrediction list jsobject" where
  "bucketByDate tides = bucketLoop [] tides"

text \<open>The keys of a list in order of first occurrence.\<close>

fun firstOccurrences :: "'a list \<Rightarrow> 'a list" where
  "firstOccurrences [] = []"
| "firstOccurrences (x # xs) = x # filter (\<lambda>y. y \<noteq> x) (firstOccurrences xs)"

subsection \<open>The next tide and the wind summary (the \<open>report\<close> handler)\<close>

text \<open>
  \<^verbatim>\<open>const upcoming = todayParsed.filter((t) => new Date(t.time.replace(' ', 'T')) > now);
  ... nextTide: upcoming[0] || null\<close>
  Parsing a date string is left to the runtime: \<open>dateParse\<close> gives the time value
  of \<open>new Date(s)\<close>, \<open>NaN\<close> for an invalid date. Comparing two dates compares their
  time values.
\<close>

definition isUpcoming :: "(string \<Rightarrow> jsnumber) \<Rightarrow> jsnumber \<Rightarrow> tidePrediction \<Rightarrow> bool" where
  "isUpcoming dateParse now t =
     jsGreater (dateParse (jsReplace CHR '' '' CHR ''T'' (tide_time t))) now"

definition upcoming ::
  "(string \<Rightarrow> jsnumber) \<Rightarrow> jsnumber \<Rightarrow> tidePrediction list \<Rightarrow> tidePrediction list" where
  "upcoming dateParse now todayParsed = filter (isUpcoming dateParse now) todayParsed"

definition nextUpcoming ::
  "(string \<Rightarrow> jsnumber) \<Rightarrow> jsnumber \<Rightarrow> tidePrediction list \<Rightarrow> tidePrediction option" where
  "nextUpcoming dateParse now todayParsed =
     (case upcoming dateParse now todayParsed of
        [] \<Rightarrow> None
      | t # _ \<Rightarrow> Some t)"

text \<open>\<^verbatim>\<open>wind ? (wind.speed > 15 ? 'windy' : wind.speed > 8 ? 'moderate' : 'calm') : 'unknown'\<close>\<close>

definition classifyWind :: "windReading option \<Rightarrow> string" where
  "classifyWind wind =
     (case wind of
        None \<Rightarrow> ''unknown''
      | Some w \<Rightarrow>
          if jsGreater (wind_speed w) (Finite 15) then ''windy''
          else if jsGreater (wind_speed w) (Finite 8) then ''moderate''
          else ''calm'')"

subsection \<open>Upstream calls\<close>

text \<open>
  The JSON bodies of the upstream API, with the fields the module reads:
  \<open>error.message\<close>, \<open>predictions\<close>, \<open>data\<close>, \<open>stations\<close>. A field that is missing
  is \<open>None\<close>.
\<close>

record errorPayload =
  ep_message :: "string option"

record stationMeta =
  sm_name :: "string option"
  sm_lat :: "jsnumber option"
  sm_lng :: "jsnumber option"
  sm_state :: "string option"
  sm_timezone :: "string option"
  sm_tideType :: "string option"

record noaaJSON =
  js_error :: "errorPayload option"
  js_predictions :: "rawPrediction list option"
  js_data :: "rawWind list option"
  js_stations :: "stationMeta list option"

text \<open>
  The value \<open>response.json()\<close> delivers: \<open>null\<close>, an object, or another JSON value
  (a boolean, number, string or array).
\<close>

datatype jsonBody = BodyNull | BodyOther | BodyObject noaaJSON

text \<open>
  What \<open>fetch(url)\<close> gives: the request fails, or a response arrives with a status
  and a body; the body is \<open>None\<close> when it is not JSON.
\<close>

datatype httpResult = NetworkFailure | HttpResponse nat "jsonBody option"

text \<open>
  \<^verbatim>\<open>const response = await fetch(url);
  if (!response.ok) throw new Error(`API error: ${response.status}`);
  return response.json();\<close>
\<close>

definition fetchJSON :: "httpResult \<Rightarrow> exn + jsonBody" where
  "fetchJSON r =
     (case r of
        NetworkFailure \<Rightarrow> Inl NetworkError
      | HttpResponse status body \<Rightarrow>
          if \<not> (200 \<le> status \<and> status \<le> 299) then Inl (ApiError status)
          else (case body of
                  None \<Rightarrow> Inl SyntaxError
                | Some json \<Rightarrow> Inr json))"

text \<open>\<open>promise.catch(() => fallback)\<close>: a promise that always fulfils.\<close>

definition catchWith :: "'a \<Rightarrow> exn + 'a \<Rightarrow> 'a" where
  "catchWith fallback r = (case r of Inl e \<Rightarrow> fallback | Inr x \<Rightarrow> x)"

definition emptyJSON :: noaaJSON where
  "emptyJSON = \<lparr>js_error = None, js_predictions = None, js_data = None, js_stations = None\<rparr>"

definition emptyStation :: stationMeta where
  "emptyStation = \<lparr>sm_name = None, sm_lat = None, sm_lng = None, sm_state = None,
                    sm_timezone = None, sm_tideType = None\<rparr>"

text \<open>
  Reading a property of the delivered value (\<open>data.error\<close>, \<open>windData.data\<close>,
  \<open>stationData.stations\<close>): on \<open>null\<close> the access raises a \<open>TypeError\<close>; on a
  boolean, number, string or array every field the module reads is \<open>undefined\<close>.
\<close>

definition readBody :: "jsonBody \<Rightarrow> exn + noaaJSON" where
  "readBody body =
     (case body of
        BodyNull \<Rightarrow> Inl TypeError
      | BodyOther \<Rightarrow> Inr emptyJSON
      | BodyObject json \<Rightarrow> Inr json)"

text \<open>The fallbacks of the handlers: \<open>{ data: [] }\<close> and \<open>{ stations: [] }\<close>.\<close>

definition windFallback :: noaaJSON where
  "windFallback = emptyJSON\<lparr>js_data := Some []\<rparr>"

definition stationFallback :: noaaJSON where
  "stationFallback = emptyJSON\<lparr>js_stations := Some []\<rparr>"

text \<open>\<open>data.predictions || []\<close>\<close>

definition orEmpty :: "'a list option \<Rightarrow> 'a list" where
  "orEmpty xs = (case xs of None \<Rightarrow> [] | Some ys \<Rightarrow> ys)"

text \<open>\<open>stationData.stations?.[0] || {}\<close>\<close>

definition firstStation :: "noaaJSON \<Rightarrow> stationMeta" where
  "firstStation stationData =
     (case js_stations stationData of
        None \<Rightarrow> emptyStation
      | Some [] \<Rightarrow> emptyStation
      | Some (st # _) \<Rightarrow> st)"

text \<open>\<open>station.name || 'Unknown'\<close>: the empty string is falsy too.\<close>

definition orUnknown :: "string option \<Rightarrow> string" where
  "orUnknown name = (case name of None \<Rightarrow> ''Unknown'' | Some n \<Rightarrow> if n = [] then ''Unknown'' else n)"

subsection \<open>The handlers' outputs\<close>

record errorOutput =
  eo_error :: "string option"
  eo_stationId :: string

record tidesOutput =
  to_stationId :: string
  to_date :: string
  to_tides :: "tidePrediction list"
  to_units :: string
  to_fetchedAt :: string

record forecastOutput =
  fo_stationId :: string
  fo_days :: jsnumber
  fo_forecast :: "tidePrediction list jsobject"
  fo_units :: string
  fo_fetchedAt :: string

record stationInfo =
  si_id :: string
  si_name :: string
  si_lat :: "jsnumber option"
  si_lng :: "jsnumber option"
  si_state :: "string option"
  si_timezone :: "string option"

record stationInfoReport = stationInfo +
  si_tideType :: "string option"

record conditionsOutput =
  co_station :: stationInfo
  co_tides :: "tidePrediction list"
  co_wind :: "windReading option"
  co_units_tide :: string
  co_units_wind :: string
  co_fetchedAt :: string

record reportOutput =
  ro_station :: stationInfoReport
  ro_today_tides :: "tidePrediction list"
  ro_today_nextTide :: "tidePrediction option"
  ro_fiveDayForecast :: "tidePrediction list jsobject"
  ro_currentWind :: "windReading option"
  ro_highTidesPerDay :: nat
  ro_lowTidesPerDay :: nat
  ro_windConditions :: string
  ro_units_tide :: string
  ro_units_wind :: string
  ro_generatedAt :: string
  ro_dataSource :: string

datatype handlerOutput =
    ErrorOutput errorOutput
  | TidesOutput tidesOutput
  | ForecastOutput forecastOutput
  | ConditionsOutput conditionsOutput
  | ReportOutput reportOutput

subsection \<open>The handlers\<close>

text \<open>
  \<open>tides\<close>: one required call. \<open>isoDate\<close> and \<open>isoFetched\<close> are the two readings
  \<open>new Date().toISOString()\<close>.
\<close>

definition tidesHandler ::
  "(rat \<Rightarrow> jsnumber) \<Rightarrow> string \<Rightarrow> string \<Rightarrow> string \<Rightarrow> httpResult \<Rightarrow> exn + handlerOutput" where
  "tidesHandler rnd stationId isoDate isoFetched resp =
     (case fetchJSON resp of
        Inl e \<Rightarrow> Inl e
      | Inr body \<Rightarrow>
          (case readBody body of
             Inl e \<Rightarrow> Inl e
           | Inr data \<Rightarrow>
               (case js_error data of
                  Some err \<Rightarrow>
                    Inr (ErrorOutput \<lparr>eo_error = ep_message err, eo_stationId = stationId\<rparr>)
                | None \<Rightarrow>
                    Inr (TidesOutput
                      \<lparr>to_stationId = stationId,
                       to_date = take 10 isoDate,
                       to_tides = parseTides rnd (orEmpty (js_predictions data)),
                       to_units = ''feet (MLLW datum)'',
                       to_fetchedAt = isoFetched\<rparr>))))"

text \<open>\<open>forecast\<close>: one required call, then the grouping by date.\<close>

definition forecastHandler ::
  "(rat \<Rightarrow> jsnumber) \<Rightarrow> string \<Rightarrow> jsnumber \<Rightarrow> string \<Rightarrow> httpResult \<Rightarrow> exn + handlerOutput" where
  "forecastHandler rnd stationId days isoFetched resp =
     (case fetchJSON resp of
        Inl e \<Rightarrow> Inl e
      | Inr body \<Rightarrow>
          (case readBody body of
             Inl e \<Rightarrow> Inl e
           | Inr data \<Rightarrow>
               (case js_error data of
                  Some err \<Rightarrow>
                    Inr (ErrorOutput \<lparr>eo_error = ep_message err, eo_stationId = stationId\<rparr>)
                | None \<Rightarrow>
                    (case bucketByDate (parseTides rnd (orEmpty (js_predictions data))) of
                       Inl e \<Rightarrow> Inl e
                     | Inr byDate \<Rightarrow>
                         Inr (ForecastOutput
                           \<lparr>fo_stationId = stationId,
                            fo_days = days,
                            fo_forecast = byDate,
                            fo_units = ''feet (MLLW datum)'',
                            fo_fetchedAt = isoFetched\<rparr>)))))"

text \<open>
  \<open>conditions\<close>: \<open>Promise.all\<close> of the tide call and of the wind and station calls,
  each of the latter two with its \<open>catch\<close>, so that only the tide call can reject.
  The delivered values are then read outside any \<open>catch\<close>, in the order
  \<open>stationData.stations\<close>, \<open>tidesData.error\<close>, \<open>windData.data\<close>.
\<close>

definition conditionsHandler ::
  "(rat \<Rightarrow> jsnumber) \<Rightarrow> string \<Rightarrow> string \<Rightarrow> httpResult \<Rightarrow> httpResult \<Rightarrow> httpResult
     \<Rightarrow> exn + handlerOutput" where
  "conditionsHandler rnd stationId isoFetched tidesResp windResp stationResp =
     (case (fetchJSON tidesResp,
            catchWith (BodyObject windFallback) (fetchJSON windResp),
            catchWith (BodyObject stationFallback) (fetchJSON stationResp)) of
        (Inl e, windBody, stationBody) \<Rightarrow> Inl e
      | (Inr tidesBody, windBody, stationBody) \<Rightarrow>
          (case readBody stationBody of
             Inl e \<Rightarrow> Inl e
           | Inr stationData \<Rightarrow>
          (case readBody tidesBody of
             Inl e \<Rightarrow> Inl e
           | Inr tidesData \<Rightarrow>
          (case readBody windBody of
             Inl e \<Rightarrow> Inl e
           | Inr windData \<Rightarrow>
          (let station = firstStation stationData;
               tides = (case js_error tidesData of
                          Some err \<Rightarrow> []
                        | None \<Rightarrow> parseTides rnd (orEmpty (js_predictions tidesData)));
               wind = parseWind rnd (js_data windData)
           in Inr (ConditionsOutput
                \<lparr>co_station =
                   \<lparr>si_id = stationId,
                    si_name = orUnknown (sm_name station),
                    si_lat = sm_lat station,
                    si_lng = sm_lng station,
                    si_state = sm_state station,
                    si_timezone = sm_timezone station\<rparr>,
                 co_tides = tides,
                 co_wind = wind,
                 co_units_tide = ''feet (MLLW datum)'',
                 co_units_wind = ''knots'',
                 co_fetchedAt = isoFetched\<rparr>))))))"


subsection \<open>The input schema of \<open>search\<close>\<close>

text \<open>
  \<^verbatim>\<open>z.object({
    state: z.string().length(2),
    limit: z.number().optional().default(20),
  })\<close>
  A request field is a JSON value, \<open>JUndefined\<close> when the key is missing. The schema
  combinators are the validation library's: a string schema with an exact length, a
  number schema (which refuses \<open>NaN\<close>, and the infinities when \<open>finiteOnly\<close> holds,
  as the library's version decides), \<open>optional\<close> and \<open>default\<close>.
\<close>

datatype jsvalue = JUndefined | JNull | JBoolean bool | JNumber jsnumber | JString string | JObject

datatype zodIssue = InvalidType | TooSmall | TooBig

definition zStringLength :: "nat \<Rightarrow> jsvalue \<Rightarrow> zodIssue list + string" where
  "zStringLength n v =
     (case v of
        JString s \<Rightarrow>
          if length s < n then Inl [TooSmall]
          else if length s > n then Inl [TooBig]
          else Inr s
      | _ \<Rightarrow> Inl [InvalidType])"

definition zNumber :: "bool \<Rightarrow> jsvalue \<Rightarrow> zodIssue list + jsnumber" where
  "zNumber finiteOnly v =
     (case v of
        JNumber x \<Rightarrow>
          if x = NaN then Inl [InvalidType]
          else if finiteOnly \<and> (x = PosInfinity \<or> x = NegInfinity) then Inl [InvalidType]
          else Inr x
      | _ \<Rightarrow> Inl [InvalidType])"

definition zOptional ::
  "(jsvalue \<Rightarrow> zodIssue list + 'a) \<Rightarrow> jsvalue \<Rightarrow> zodIssue list + 'a option" where
  "zOptional inner v =
     (if v = JUndefined then Inr None
      else (case inner v of Inl issues \<Rightarrow> Inl issues | Inr x \<Rightarrow> Inr (Some x)))"

definition zDefault ::
  "jsvalue \<Rightarrow> (jsvalue \<Rightarrow> zodIssue list + 'a) \<Rightarrow> jsvalue \<Rightarrow> zodIssue list + 'a" where
  "zDefault d inner v = (if v = JUndefined then inner d else inner v)"

record searchRequest =
  rq_state :: jsvalue
  rq_limit :: jsvalue

record searchInput =
  in_state :: string
  in_limit :: "jsnumber option"

definition searchSchema :: "bool \<Rightarrow> searchRequest \<Rightarrow> zodIssue list + searchInput" where
  "searchSchema finiteOnly rq =
     (case (zStringLength 2 (rq_state rq),
            zDefault (JNumber (Finite 20)) (zOptional (zNumber finiteOnly)) (rq_limit rq)) of
        (Inl issues1, Inl issues2) \<Rightarrow> Inl (issues1 @ issues2)
      | (Inl issues1, Inr _) \<Rightarrow> Inl issues1
      | (Inr _, Inl issues2) \<Rightarrow> Inl issues2
      | (Inr s, Inr l) \<Rightarrow> Inr \<lparr>in_state = s, in_limit = l\<rparr>)"

subsection \<open>Sample data\<close>

text \<open>
  The inputs at which the theorems below are instantiated. \<open>sampleDateParse\<close>
  stands in for the runtime's date parser: it reads the digits of a timestamp as one
  number, which orders timestamps of the form \<open>YYYY-MM-DDTHH:MM\<close> as their time
  values do, and gives \<open>NaN\<close> for a string without digits.
\<close>

definition sampleRaw :: "rawPrediction list" where
  "sampleRaw =
     [\<lparr>p_t = ''2024-01-01 05:00'', p_v = ''1.25'', p_type = ''H''\<rparr>,
      \<lparr>p_t = ''2024-01-01 17:30'', p_v = ''abc'', p_type = ''L''\<rparr>,
      \<lparr>p_t = ''2024-01-02 06:10'', p_v = ''-0.5'', p_type = []\<rparr>]"

definition sampleWind :: "rawWind list" where
  "sampleWind =
     [\<lparr>w_t = ''2024-01-01 05:00'', w_s = ''3.5'', w_d = ''180.00'', w_dr = ''S'', w_g = ''5''\<rparr>,
      \<lparr>w_t = ''2024-01-01 05:06'', w_s = ''16'', w_d = ''270.00'', w_dr = ''W'', w_g = []\<rparr>]"

definition tideAt :: "string \<Rightarrow> tidePrediction" where
  "tideAt time = \<lparr>tide_time = time, tide_height = Finite 1, tide_type = ''high''\<rparr>"

definition windAt :: "jsnumber \<Rightarrow> windReading" where
  "windAt speed =
     \<lparr>wind_time = ''2024-01-01 05:06'', wind_speed = speed, wind_direction = Finite 270,
      wind_directionLabel = ''W'', wind_gust = NaN\<rparr>"


definition errorJSON :: noaaJSON where
  "errorJSON = emptyJSON\<lparr>js_error := Some \<lparr>ep_message = Some ''No Predictions data was found''\<rparr>\<rparr>"





definition sampleDateParse :: "string \<Rightarrow> jsnumber" where
  "sampleDateParse s =
     (if filter isDigit s = [] then NaN else Finite (of_nat (decimalValue (filter isDigit s))))"

section \<open>Properties\<close>

subsection \<open>The parsers\<close>




text \<open>
  Conversely, a string that starts with a decimal literal never parses to \<open>NaN\<close>
  (the rounding of a rational gives no \<open>NaN\<close>), so \<open>startsNumeric\<close> is exactly the
  condition under which \<open>parseFloat\<close> yields a number.
\<close>

lemma jsNegate_NaN: "jsNegate x = NaN \<longleftrightarrow> x = NaN"
  by (cases x) auto

lemma unsignedDecimal_numeric:
  assumes "startsUnsigned u" and "\<forall>q. rnd q \<noteq> NaN"
  shows "unsignedDecimal rnd u \<noteq> NaN"
proof (cases "take 8 u = ''Infinity''")
  case True
  then show ?thesis by (simp add: unsignedDecimal_def Let_def)
next
  case False
  with assms(1) obtain c r where u: "u = c # r"
    and cr: "isDigit c \<or> (c = CHR ''.'' \<and> (case r of [] \<Rightarrow> False | d # _ \<Rightarrow> isDigit d))"
    by (auto simp: startsUnsigned_def split: list.splits)
  show ?thesis
  proof (cases "isDigit c")
    case True
    then have "takeWhile isDigit u \<noteq> []" by (simp add: u)
    with False assms(2) show ?thesis by (simp add: unsignedDecimal_def Let_def)
  next
    case nd: False
    with cr obtain d r' where r: "r = d # r'" and d: "isDigit d" and c: "c = CHR ''.''"
      by (auto split: list.splits)
    have "dropWhile isDigit u = u" using nd by (simp add: u)
    moreover have "takeWhile isDigit (tl u) \<noteq> []" using d by (simp add: u r)
    ultimately show ?thesis
      using False assms(2) by (simp add: unsignedDecimal_def Let_def u c)
  qed
qed

lemma parseFloat_numeric:
  assumes "startsNumeric s" and "\<forall>q. rnd q \<noteq> NaN"
  shows "parseFloat rnd s \<noteq> NaN"
proof (cases "dropWhile isWhiteSpace s")
  case Nil
  with assms(1) show ?thesis unfolding startsNumeric_def by simp
next
  case (Cons c r)
  with assms(1)
  have "if c = CHR ''-'' \<or> c = CHR ''+'' then startsUnsigned r else startsUnsigned (c # r)"
    unfolding startsNumeric_def by simp
  then show ?thesis
    unfolding parseFloat_def Cons
    using assms(2) by (auto simp: unsignedDecimal_numeric jsNegate_NaN split: if_splits)
qed

lemmas parse_eval =
  parseFloat_def parseInt_def unsignedDecimal_def unsignedInteger_def exponentPart_def
  startsNumeric_def startsUnsigned_def isWhiteSpace_def isDigit_def isHexDigit_def
  decimalValue_def digitValue_def hexValue_def hexDigitValue_def



text \<open>
  C3: the type code \<open>H\<close> becomes \<open>high\<close>, \<open>L\<close> becomes \<open>low\<close>, and every other
  code becomes \<open>reading\<close>, at every position of every input.
\<close>

theorem parseTides_type_mapping:
  "\<forall>i < length predictions.
     tide_type (parseTides rnd predictions ! i) =
       (if p_type (predictions ! i) = ''H'' then ''high''
        else if p_type (predictions ! i) = ''L'' then ''low''
        else ''reading'')"
  by (simp add: parseTides_def)

theorem parseTides_type_mapping_witness:
  "length sampleRaw = 3 \<and>
   tide_type (parseTides Finite sampleRaw ! 0) = ''high'' \<and>
   tide_type (parseTides Finite sampleRaw ! 1) = ''low'' \<and>
   tide_type (parseTides Finite sampleRaw ! 2) = ''reading''"
  using parseTides_type_mapping [of sampleRaw Finite]
  by (simp add: sampleRaw_def)

text \<open>
  C4: \<open>parseWind\<close> returns \<open>null\<close> for an absent and for an empty series; for a
  non-empty series it returns the reading built from the last element alone: \<open>t\<close>
  and \<open>dr\<close> copied, \<open>s\<close> and \<open>g\<close> through \<open>parseFloat\<close>, \<open>d\<close> through \<open>parseInt\<close>.
\<close>

theorem parseWind_latest:
  "parseWind rnd None = None \<and>
   parseWind rnd (Some []) = None \<and>
   (\<forall>series. series \<noteq> [] \<longrightarrow>
      parseWind rnd (Some series) =
        Some \<lparr>wind_time = w_t (last series),
              wind_speed = parseFloat rnd (w_s (last series)),
              wind_direction = parseInt rnd (w_d (last series)),
              wind_directionLabel = w_dr (last series),
              wind_gust = parseFloat rnd (w_g (last series))\<rparr>)"
  by (simp add: parseWind_def last_conv_nth Let_def)

theorem parseWind_latest_witness:
  "sampleWind \<noteq> [] \<and>
   parseWind Finite (Some sampleWind) =
     Some \<lparr>wind_time = ''2024-01-01 05:06'', wind_speed = Finite 16,
           wind_direction = Finite 270, wind_directionLabel = ''W'', wind_gust = NaN\<rparr>"
  using parseWind_latest [of Finite]
  by (simp add: sampleWind_def parse_eval)

subsection \<open>Wind summary and next tide\<close>

text \<open>
  C6: the wind summary is \<open>unknown\<close> without a reading; with a reading it is
  \<open>windy\<close> for a speed above 15, else \<open>moderate\<close> for a speed above 8, else
  \<open>calm\<close>. A speed that is not a number compares false both times and gives
  \<open>calm\<close>.
\<close>

theorem classifyWind_thresholds:
  "classifyWind None = ''unknown'' \<and>
   (\<forall>w q. wind_speed w = Finite q \<longrightarrow>
      classifyWind (Some w) =
        (if 15 < q then ''windy'' else if 8 < q then ''moderate'' else ''calm'')) \<and>
   (\<forall>w. wind_speed w = PosInfinity \<longrightarrow> classifyWind (Some w) = ''windy'') \<and>
   (\<forall>w. wind_speed w \<in> {NaN, NegInfinity, NegZero} \<longrightarrow> classifyWind (Some w) = ''calm'')"
  by (auto simp: classifyWind_def)

theorem classifyWind_thresholds_witness:
  "classifyWind (Some (windAt (Finite 16))) = ''windy'' \<and>
   classifyWind (Some (windAt (Finite 9))) = ''moderate'' \<and>
   classifyWind (Some (windAt (Finite 3))) = ''calm'' \<and>
   classifyWind (Some (windAt (Finite 15))) = ''moderate'' \<and>
   classifyWind (Some (windAt (Finite 8))) = ''calm'' \<and>
   classifyWind (Some (windAt NaN)) = ''calm''"
proof -
  note t = classifyWind_thresholds
  have f: "\<And>q. classifyWind (Some (windAt (Finite q))) =
             (if 15 < q then ''windy'' else if 8 < q then ''moderate'' else ''calm'')"
    using t by (simp add: windAt_def)
  have n: "classifyWind (Some (windAt NaN)) = ''calm''"
    using t by (simp add: windAt_def)
  show ?thesis by (simp add: f n)
qed

lemma find_upcoming:
  "nextUpcoming dateParse now ps = List.find (isUpcoming dateParse now) ps"
  unfolding nextUpcoming_def upcoming_def
  by (induction ps) auto

text \<open>
  C5: the next tide is the first prediction, in input order, whose time (first space
  replaced by \<open>T\<close>, then parsed as a date) is strictly later than \<open>now\<close>: it
  stands at a position \<open>i\<close> before which no prediction is later than \<open>now\<close>; and
  the result is \<open>null\<close> exactly when no prediction is later than \<open>now\<close>.
\<close>

theorem nextUpcoming_first_later:
  "(case nextUpcoming dateParse now ps of
      None \<Rightarrow> \<forall>t \<in> set ps. \<not> isUpcoming dateParse now t
    | Some t \<Rightarrow>
        \<exists>i < length ps. ps ! i = t \<and> isUpcoming dateParse now t \<and>
          (\<forall>j < i. \<not> isUpcoming dateParse now (ps ! j)))"
  by (auto simp: find_upcoming find_None_iff find_Some_iff split: option.splits)

theorem nextUpcoming_first_later_witness:
  "nextUpcoming sampleDateParse (sampleDateParse ''2024-01-01T12:00'')
     [tideAt ''2024-01-01 05:00'', tideAt ''2024-01-01 17:30''] = Some (tideAt ''2024-01-01 17:30'') \<and>
   (\<exists>i < length [tideAt ''2024-01-01 05:00'', tideAt ''2024-01-01 17:30''].
      [tideAt ''2024-01-01 05:00'', tideAt ''2024-01-01 17:30''] ! i = tideAt ''2024-01-01 17:30'' \<and>
      (\<forall>j < i. \<not> isUpcoming sampleDateParse (sampleDateParse ''2024-01-01T12:00'')
                      ([tideAt ''2024-01-01 05:00'', tideAt ''2024-01-01 17:30''] ! j))) \<and>
   nextUpcoming sampleDateParse (sampleDateParse ''2024-01-02T00:00'')
     [tideAt ''2024-01-01 05:00'', tideAt ''2024-01-01 17:30''] = None \<and>
   \<not> isUpcoming sampleDateParse (sampleDateParse ''2024-01-02T00:00'') (tideAt ''2024-01-01 05:00'') \<and>
   \<not> isUpcoming sampleDateParse (sampleDateParse ''2024-01-02T00:00'') (tideAt ''2024-01-01 17:30'')"
proof -
  let ?ps = "[tideAt ''2024-01-01 05:00'', tideAt ''2024-01-01 17:30'']"
  have some: "nextUpcoming sampleDateParse (sampleDateParse ''2024-01-01T12:00'') ?ps
                = Some (tideAt ''2024-01-01 17:30'')"
    by (simp add: nextUpcoming_def upcoming_def isUpcoming_def sampleDateParse_def tideAt_def
                  isDigit_def decimalValue_def digitValue_def)
  have none: "nextUpcoming sampleDateParse (sampleDateParse ''2024-01-02T00:00'') ?ps = None"
    by (simp add: nextUpcoming_def upcoming_def isUpcoming_def sampleDateParse_def tideAt_def
                  isDigit_def decimalValue_def digitValue_def)
  from nextUpcoming_first_later [where dateParse = sampleDateParse
      and now = "sampleDateParse ''2024-01-01T12:00''" and ps = ?ps]
  have a: "\<exists>i < length ?ps. ?ps ! i = tideAt ''2024-01-01 17:30'' \<and>
             isUpcoming sampleDateParse (sampleDateParse ''2024-01-01T12:00'') (tideAt ''2024-01-01 17:30'') \<and>
             (\<forall>j < i. \<not> isUpcoming sampleDateParse (sampleDateParse ''2024-01-01T12:00'') (?ps ! j))"
    unfolding some by simp
  from nextUpcoming_first_later [where dateParse = sampleDateParse
      and now = "sampleDateParse ''2024-01-02T00:00''" and ps = ?ps]
  have b: "\<forall>t \<in> set ?ps. \<not> isUpcoming sampleDateParse (sampleDateParse ''2024-01-02T00:00'') t"
    unfolding none by simp
  from a have a': "\<exists>i < length ?ps. ?ps ! i = tideAt ''2024-01-01 17:30'' \<and>
             (\<forall>j < i. \<not> isUpcoming sampleDateParse (sampleDateParse ''2024-01-01T12:00'') (?ps ! j))"
    by blast
  show ?thesis using some none a' b by simp
qed

subsection \<open>Grouping by date\<close>

lemma map_of_insertIndexKey:
  "k \<notin> fst ` set obj \<Longrightarrow> map_of (insertIndexKey k v obj) = (map_of obj)(k \<mapsto> v)"
  by (induction obj) (auto simp: fun_upd_twist)

lemma keys_insertIndexKey:
  "set (map fst (insertIndexKey k v obj)) = insert k (set (map fst obj))"
proof (induction obj)
  case Nil
  show ?case by simp
next
  case (Cons a obj)
  obtain k' v' where a: "a = (k', v')" by (cases a)
  show ?case
  proof (cases "isArrayIndex k' \<and> decimalValue k' < decimalValue k")
    case True
    then have "insertIndexKey k v (a # obj) = (k', v') # insertIndexKey k v obj"
      by (simp add: a)
    then show ?thesis using Cons.IH by (simp add: a insert_commute)
  next
    case False
    then have "insertIndexKey k v (a # obj) = (k, v) # (k', v') # obj"
      by (auto simp: a)
    then show ?thesis by (simp add: a)
  qed
qed

lemma distinct_insertIndexKey:
  "k \<notin> fst ` set obj \<Longrightarrow> distinct (map fst obj) \<Longrightarrow> distinct (map fst (insertIndexKey k v obj))"
proof (induction obj)
  case Nil
  then show ?case by simp
next
  case (Cons a obj)
  have "set (map fst (insertIndexKey k v obj)) = insert k (set (map fst obj))"
    by (rule keys_insertIndexKey)
  with Cons show ?case by (cases a) auto
qed

lemma map_of_setProp: "map_of (setProp obj k v) = (map_of obj)(k \<mapsto> v)"
proof -
  have "k \<notin> fst ` set obj \<Longrightarrow> map_of (obj @ [(k, v)]) = (map_of obj)(k \<mapsto> v)"
    by (induction obj) (auto simp: fun_upd_twist)
  then show ?thesis
    by (simp add: setProp_def update_conv' map_of_insertIndexKey)
qed

lemma distinct_setProp:
  "distinct (map fst obj) \<Longrightarrow> distinct (map fst (setProp obj k v))"
  by (auto simp: setProp_def distinct_update distinct_insertIndexKey)

lemma keys_setProp:
  "\<not> isArrayIndex k \<Longrightarrow>
   map fst (setProp obj k v) = (if k \<in> set (map fst obj) then map fst obj else map fst obj @ [k])"
  by (auto simp: setProp_def update_keys)

lemma keys_setProp_own:
  "k \<in> set (map fst obj) \<Longrightarrow> map fst (setProp obj k v) = map fst obj"
  by (auto simp: setProp_def update_keys)

lemma getProp_setProp: "getProp (setProp obj k v) k = Own v"
  by (simp add: getProp_def map_of_setProp)

lemma bucketStep_own:
  "map_of byDate (keyOf tide) = Some bucket \<Longrightarrow>
   bucketStep byDate tide = Inr (setProp byDate (keyOf tide) (bucket @ [tide]))"
  by (simp add: bucketStep_def getProp_def)

lemma bucketStep_new:
  "map_of byDate (keyOf tide) = None \<Longrightarrow> keyOf tide \<notin> set objectPrototypeKeys \<Longrightarrow>
   bucketStep byDate tide = Inr (setProp (setProp byDate (keyOf tide) []) (keyOf tide) [tide])"
  by (simp add: bucketStep_def getProp_def map_of_setProp Let_def)

lemma bucketStep_inherited:
  "map_of byDate (keyOf tide) = None \<Longrightarrow> keyOf tide \<in> set objectPrototypeKeys \<Longrightarrow>
   bucketStep byDate tide = Inl TypeError"
  by (simp add: bucketStep_def getProp_def)


lemma map_of_None_keys: "map_of obj k = None \<longleftrightarrow> k \<notin> set (map fst obj)"
  by (simp add: map_of_eq_None_iff)

lemma bucketStep_ok:
  assumes "keyOf p \<notin> set objectPrototypeKeys"
  shows "\<exists>obj1. bucketStep obj p = Inr obj1 \<and>
           map_of obj1 = (map_of obj)(keyOf p \<mapsto>
                            (case map_of obj (keyOf p) of None \<Rightarrow> [p] | Some b \<Rightarrow> b @ [p])) \<and>
           (distinct (map fst obj) \<longrightarrow> distinct (map fst obj1)) \<and>
           (\<not> isArrayIndex (keyOf p) \<longrightarrow>
              map fst obj1 = (if keyOf p \<in> set (map fst obj) then map fst obj
                              else map fst obj @ [keyOf p]))"
proof (cases "map_of obj (keyOf p)")
  case None
  then have notin: "keyOf p \<notin> set (map fst obj)" by (simp add: map_of_None_keys)
  have step: "bucketStep obj p = Inr (setProp (setProp obj (keyOf p) []) (keyOf p) [p])"
    using None assms by (rule bucketStep_new)
  have keys: "\<not> isArrayIndex (keyOf p) \<Longrightarrow>
      map fst (setProp (setProp obj (keyOf p) []) (keyOf p) [p]) = map fst obj @ [keyOf p]"
    using notin by (simp add: keys_setProp)
  show ?thesis
    unfolding step using None notin keys
    by (simp add: map_of_setProp distinct_setProp)
next
  case (Some b)
  then have "keyOf p \<in> set (map fst obj)"
    by (metis map_of_None_keys option.distinct(1))
  moreover have "bucketStep obj p = Inr (setProp obj (keyOf p) (b @ [p]))"
    using Some by (rule bucketStep_own)
  ultimately show ?thesis
    using Some by (simp add: map_of_setProp distinct_setProp keys_setProp)
qed

lemma bucketLoop_ok:
  assumes "\<forall>p \<in> set ps. keyOf p \<notin> set objectPrototypeKeys" and "distinct (map fst obj)"
  shows "\<exists>obj'. bucketLoop obj ps = Inr obj' \<and> distinct (map fst obj') \<and>
           (\<forall>k. map_of obj' k =
              (case map_of obj k of
                 Some b \<Rightarrow> Some (b @ filter (\<lambda>p. keyOf p = k) ps)
               | None \<Rightarrow> if k \<in> keyOf ` set ps then Some (filter (\<lambda>p. keyOf p = k) ps)
                         else None))"
  using assms
proof (induction ps arbitrary: obj)
  case Nil
  then show ?case by (simp split: option.splits)
next
  case (Cons p ps)
  from Cons.prems(1) have pk: "keyOf p \<notin> set objectPrototypeKeys" by simp
  from bucketStep_ok [OF pk, of obj] Cons.prems(2)
  obtain obj1 where step: "bucketStep obj p = Inr obj1"
    and m1: "map_of obj1 = (map_of obj)(keyOf p \<mapsto>
               (case map_of obj (keyOf p) of None \<Rightarrow> [p] | Some b \<Rightarrow> b @ [p]))"
    and d1: "distinct (map fst obj1)"
    by blast
  from Cons.prems(1) have rest: "\<forall>p \<in> set ps. keyOf p \<notin> set objectPrototypeKeys" by simp
  from Cons.IH [OF rest d1]
  obtain obj' where loop: "bucketLoop obj1 ps = Inr obj'" and d': "distinct (map fst obj')"
    and m': "\<forall>k. map_of obj' k =
              (case map_of obj1 k of
                 Some b \<Rightarrow> Some (b @ filter (\<lambda>p. keyOf p = k) ps)
               | None \<Rightarrow> if k \<in> keyOf ` set ps then Some (filter (\<lambda>p. keyOf p = k) ps)
                         else None)"
    by blast
  have "\<forall>k. map_of obj' k =
              (case map_of obj k of
                 Some b \<Rightarrow> Some (b @ filter (\<lambda>q. keyOf q = k) (p # ps))
               | None \<Rightarrow> if k \<in> keyOf ` set (p # ps) then Some (filter (\<lambda>q. keyOf q = k) (p # ps))
                         else None)"
  proof
    fix k
    show "map_of obj' k =
              (case map_of obj k of
                 Some b \<Rightarrow> Some (b @ filter (\<lambda>q. keyOf q = k) (p # ps))
               | None \<Rightarrow> if k \<in> keyOf ` set (p # ps) then Some (filter (\<lambda>q. keyOf q = k) (p # ps))
                         else None)"
      using m' [rule_format, of k] by (auto simp: m1 split: option.splits)
  qed
  with step loop d' show ?case by simp
qed


lemma jsSplit_not_Nil: "jsSplit sep s \<noteq> []"
  by (induction s) (auto split: list.splits)

lemma hd_jsSplit: "hd (jsSplit sep s) = takeWhile (\<lambda>c. c \<noteq> sep) s"
  by (induction s) (auto simp: jsSplit_not_Nil split: list.splits)

lemma dateKey_takeWhile: "dateKey time = takeWhile (\<lambda>c. c \<noteq> CHR '' '') time"
  using hd_jsSplit [of "CHR '' ''" time] jsSplit_not_Nil [of "CHR '' ''" time]
  by (auto simp: dateKey_def split: list.splits)







lemma firstOccurrences_set: "set (firstOccurrences xs) = set xs"
  by (induction xs) auto

lemma firstOccurrences_distinct: "distinct (firstOccurrences xs)"
  by (induction xs) (auto simp: firstOccurrences_set)

lemma remdups_snoc: "remdups (ys @ [x]) = filter (\<lambda>y. y \<noteq> x) (remdups ys) @ [x]"
  by (induction ys) auto

lemma firstOccurrences_rev_remdups: "firstOccurrences xs = rev (remdups (rev xs))"
  by (induction xs) (simp_all add: remdups_snoc rev_filter)

text \<open>
  A key that contains a hyphen, as every date \<open>YYYY-MM-DD\<close> does, is neither an
  inherited name nor an array index.
\<close>

lemma hyphenated_key_plain:
  assumes "CHR ''-'' \<in> set k"
  shows "k \<notin> set objectPrototypeKeys \<and> \<not> isArrayIndex k"
proof
  show "k \<notin> set objectPrototypeKeys"
    using assms by (auto simp: objectPrototypeKeys_def)
  have "\<not> isDigit CHR ''-''" by (simp add: isDigit_def)
  with assms show "\<not> isArrayIndex k"
    by (auto simp: isArrayIndex_def list_all_iff)
qed

lemma bucketByDate_ok:
  assumes "\<forall>p \<in> set ps. datePart p \<notin> set objectPrototypeKeys"
  shows "\<exists>byDate. bucketByDate ps = Inr byDate \<and> distinct (map fst byDate) \<and>
           (\<forall>k. map_of byDate k =
              (if k \<in> datePart ` set ps then Some (filter (\<lambda>p. datePart p = k) ps) else None))"
proof -
  from assms have "\<forall>p \<in> set ps. keyOf p \<notin> set objectPrototypeKeys"
    by (simp add: dateKey_takeWhile)
  from bucketLoop_ok [OF this, of "[]"] show ?thesis
    by (simp add: bucketByDate_def dateKey_takeWhile cong: if_cong)
qed

text \<open>
  For every sequence of predictions none of whose date keys (the part of \<open>time\<close>
  before the first space) is the name of a property inherited from
  \<open>Object.prototype\<close>, the grouping returns an object with one bucket per date key
  that occurs, and the bucket of a key holds exactly the predictions with that key,
  in their input order. After any number \<open>n\<close> of iterations the buckets present are
  those of the keys among the first \<open>n\<close> predictions: a bucket exists from its key's
  first occurrence on.
\<close>

theorem bucketByDate_groups:
  assumes "\<forall>p \<in> set ps. datePart p \<notin> set objectPrototypeKeys"
  shows "\<exists>byDate. bucketByDate ps = Inr byDate \<and> distinct (map fst byDate) \<and>
           (\<forall>k. map_of byDate k =
              (if k \<in> datePart ` set ps then Some (filter (\<lambda>p. datePart p = k) ps) else None)) \<and>
           (\<forall>n \<le> length ps. \<exists>part. bucketByDate (take n ps) = Inr part \<and>
              set (map fst part) = datePart ` set (take n ps))"
proof -
  have prefix: "\<exists>part. bucketByDate (take n ps) = Inr part \<and>
              set (map fst part) = datePart ` set (take n ps)" for n
  proof -
    have "\<forall>p \<in> set (take n ps). datePart p \<notin> set objectPrototypeKeys"
      using assms by (meson in_set_takeD)
    from bucketByDate_ok [OF this]
    obtain part where p: "bucketByDate (take n ps) = Inr part"
      and m: "\<forall>k. map_of part k =
              (if k \<in> datePart ` set (take n ps)
               then Some (filter (\<lambda>p. datePart p = k) (take n ps)) else None)"
      by blast
    have "set (map fst part) = datePart ` set (take n ps)"
    proof (rule set_eqI)
      fix k
      have "k \<in> set (map fst part) \<longleftrightarrow> map_of part k \<noteq> None"
        by (simp add: map_of_eq_None_iff)
      also have "\<dots> \<longleftrightarrow> k \<in> datePart ` set (take n ps)"
        using m by simp
      finally show "k \<in> set (map fst part) \<longleftrightarrow> k \<in> datePart ` set (take n ps)" .
    qed
    with p show ?thesis by blast
  qed
  from bucketByDate_ok [OF assms] prefix show ?thesis by blast
qed


theorem bucketByDate_groups_witness:
  "datePart (tideAt ''2024-01-01 05:00'') \<notin> set objectPrototypeKeys \<and>
   datePart (tideAt ''2024-01-01 17:30'') \<notin> set objectPrototypeKeys \<and>
   datePart (tideAt ''2024-01-02 06:10'') \<notin> set objectPrototypeKeys \<and>
   (\<exists>byDate.
      bucketByDate [tideAt ''2024-01-01 05:00'', tideAt ''2024-01-01 17:30'', tideAt ''2024-01-02 06:10'']
        = Inr byDate \<and>
      map_of byDate ''2024-01-01'' = Some [tideAt ''2024-01-01 05:00'', tideAt ''2024-01-01 17:30''] \<and>
      map_of byDate ''2024-01-02'' = Some [tideAt ''2024-01-02 06:10''] \<and>
      map_of byDate ''2024-01-03'' = None)"
proof -
  let ?ps = "[tideAt ''2024-01-01 05:00'', tideAt ''2024-01-01 17:30'', tideAt ''2024-01-02 06:10'']"
  have h: "\<forall>p \<in> set ?ps. datePart p \<notin> set objectPrototypeKeys"
    by (simp add: tideAt_def objectPrototypeKeys_def)
  from bucketByDate_groups [OF h]
  obtain byDate where b: "bucketByDate ?ps = Inr byDate"
    and m: "\<And>k. map_of byDate k =
              (if k \<in> datePart ` set ?ps then Some (filter (\<lambda>p. datePart p = k) ?ps) else None)"
    by blast
  have "map_of byDate ''2024-01-01'' = Some [tideAt ''2024-01-01 05:00'', tideAt ''2024-01-01 17:30'']"
    unfolding m by (simp add: tideAt_def)
  moreover have "map_of byDate ''2024-01-02'' = Some [tideAt ''2024-01-02 06:10'']"
    unfolding m by (simp add: tideAt_def)
  moreover have "map_of byDate ''2024-01-03'' = None"
    unfolding m by (simp add: tideAt_def)
  ultimately show ?thesis using b h by auto
qed






subsection \<open>The error policy of the handlers\<close>


text \<open>
  C7 (as amended): in the \<open>tides\<close> and \<open>forecast\<close> operations, when the upstream call
  for the tide predictions is answered with a success status and a JSON body that
  carries an error payload, the handler returns the error object made of the upstream
  message and the station identifier of the request, and raises nothing.
\<close>

theorem error_payload_surfaced:
  assumes "200 \<le> status" and "status \<le> 299" and "js_error data = Some err"
  shows "tidesHandler rnd stationId isoDate isoFetched (HttpResponse status (Some (BodyObject data)))
           = Inr (ErrorOutput \<lparr>eo_error = ep_message err, eo_stationId = stationId\<rparr>) \<and>
         forecastHandler rnd stationId days isoFetched (HttpResponse status (Some (BodyObject data)))
           = Inr (ErrorOutput \<lparr>eo_error = ep_message err, eo_stationId = stationId\<rparr>)"
  using assms by (simp add: tidesHandler_def forecastHandler_def fetchJSON_def readBody_def)

theorem error_payload_surfaced_witness:
  "(200::nat) \<le> 200 \<and> (200::nat) \<le> 299 \<and>
   js_error errorJSON = Some \<lparr>ep_message = Some ''No Predictions data was found''\<rparr> \<and>
   tidesHandler Finite ''9414290'' ''2024-01-01T08:00:00.000Z'' ''2024-01-01T08:00:00.001Z''
       (HttpResponse 200 (Some (BodyObject errorJSON)))
     = Inr (ErrorOutput \<lparr>eo_error = Some ''No Predictions data was found'',
                          eo_stationId = ''9414290''\<rparr>) \<and>
   forecastHandler Finite ''9414290'' (Finite 3) ''2024-01-01T08:00:00.001Z''
       (HttpResponse 200 (Some (BodyObject errorJSON)))
     = Inr (ErrorOutput \<lparr>eo_error = Some ''No Predictions data was found'',
                          eo_stationId = ''9414290''\<rparr>)"
proof -
  have e: "js_error errorJSON = Some \<lparr>ep_message = Some ''No Predictions data was found''\<rparr>"
    by (simp add: errorJSON_def emptyJSON_def)
  from error_payload_surfaced [where status = 200 and data = errorJSON, OF _ _ e] e
  show ?thesis by simp
qed

text \<open>
  The claim does not extend to every operation nor to every response: \<open>conditions\<close>
  answers an error payload with its normal output and an empty tide list, and an
  error payload that arrives with status 400 makes \<open>fetchJSON\<close> throw before the body
  is read.
\<close>

theorem error_payload_counterexample:
  "conditionsHandler Finite ''9414290'' ''2024-01-01T08:00:00.000Z''
       (HttpResponse 200 (Some (BodyObject errorJSON))) NetworkFailure NetworkFailure
     = Inr (ConditionsOutput
         \<lparr>co_station = \<lparr>si_id = ''9414290'', si_name = ''Unknown'', si_lat = None,
                         si_lng = None, si_state = None, si_timezone = None\<rparr>,
          co_tides = [], co_wind = None,
          co_units_tide = ''feet (MLLW datum)'', co_units_wind = ''knots'',
          co_fetchedAt = ''2024-01-01T08:00:00.000Z''\<rparr>) \<and>
   tidesHandler Finite ''9414290'' ''2024-01-01T08:00:00.000Z'' ''2024-01-01T08:00:00.001Z''
       (HttpResponse 400 (Some (BodyObject errorJSON)))
     = Inl (ApiError 400)"
  by (simp add: conditionsHandler_def tidesHandler_def fetchJSON_def catchWith_def errorJSON_def
                emptyJSON_def windFallback_def stationFallback_def firstStation_def readBody_def
                emptyStation_def orUnknown_def parseWind_def)


























subsection \<open>The input schema of \<open>search\<close>\<close>

lemma zStringLength_Inr:
  "zStringLength n v = Inr s \<longleftrightarrow> v = JString s \<and> length s = n"
  by (cases v) (auto simp: zStringLength_def)

lemma limit_Inr:
  "zDefault (JNumber (Finite 20)) (zOptional (zNumber finiteOnly)) v = Inr l \<longleftrightarrow>
     (v = JUndefined \<and> l = Some (Finite 20)) \<or>
     (\<exists>x. v = JNumber x \<and> x \<noteq> NaN \<and> (finiteOnly \<longrightarrow> x \<noteq> PosInfinity \<and> x \<noteq> NegInfinity)
          \<and> l = Some x)"
  by (cases v) (auto simp: zDefault_def zOptional_def zNumber_def)

text \<open>
  C9 (as amended): the schema of \<open>search\<close> accepts a request exactly when \<open>state\<close> is
  a string of length 2 and \<open>limit\<close> is missing or a number other than \<open>NaN\<close> (and
  finite, where the library's number schema demands it); the parsed limit is 20 when
  \<open>limit\<close> is missing and the given number otherwise, with no check of its sign or
  of its being an integer.
\<close>

theorem searchSchema_accepts:
  "searchSchema finiteOnly rq = Inr inp \<longleftrightarrow>
     (\<exists>s. rq_state rq = JString s \<and> length s = 2 \<and> in_state inp = s) \<and>
     ((rq_limit rq = JUndefined \<and> in_limit inp = Some (Finite 20)) \<or>
      (\<exists>x. rq_limit rq = JNumber x \<and> x \<noteq> NaN \<and>
           (finiteOnly \<longrightarrow> x \<noteq> PosInfinity \<and> x \<noteq> NegInfinity) \<and> in_limit inp = Some x))"
proof -
  have inp: "inp = \<lparr>in_state = in_state inp, in_limit = in_limit inp\<rparr>" by simp
  have "searchSchema finiteOnly rq = Inr inp \<longleftrightarrow>
          zStringLength 2 (rq_state rq) = Inr (in_state inp) \<and>
          zDefault (JNumber (Finite 20)) (zOptional (zNumber finiteOnly)) (rq_limit rq)
            = Inr (in_limit inp)"
    by (subst inp) (auto simp: searchSchema_def split: sum.splits)
  then show ?thesis
    by (simp add: zStringLength_Inr limit_Inr)
qed

theorem searchSchema_accepts_witness:
  "searchSchema True \<lparr>rq_state = JString ''CA'', rq_limit = JUndefined\<rparr>
     = Inr \<lparr>in_state = ''CA'', in_limit = Some (Finite 20)\<rparr> \<and>
   searchSchema True \<lparr>rq_state = JString ''CA'', rq_limit = JNumber (Finite 5)\<rparr>
     = Inr \<lparr>in_state = ''CA'', in_limit = Some (Finite 5)\<rparr> \<and>
   searchSchema True \<lparr>rq_state = JString ''CAL'', rq_limit = JUndefined\<rparr>
     \<noteq> Inr \<lparr>in_state = ''CAL'', in_limit = Some (Finite 20)\<rparr>"
  by (simp add: searchSchema_accepts)

text \<open>The limit \<open>-2.5\<close>, neither positive nor an integer, passes the validation.\<close>

theorem searchSchema_limit_counterexample:
  "searchSchema True \<lparr>rq_state = JString ''CA'', rq_limit = JNumber (Finite (- 5 / 2))\<rparr>
     = Inr \<lparr>in_state = ''CA'', in_limit = Some (Finite (- 5 / 2))\<rparr> \<and>
   searchSchema False \<lparr>rq_state = JString ''CA'', rq_limit = JNumber (Finite (- 5 / 2))\<rparr>
     = Inr \<lparr>in_state = ''CA'', in_limit = Some (Finite (- 5 / 2))\<rparr>"
  by (simp add: searchSchema_def zStringLength_def zDefault_def zOptional_def zNumber_def)

end
